theory Spec2Isabelle
  imports Complex_Main
begin

section \<open>Image simulation for lensed systems (sim_pipeline/image_simulation.py)\<close>

text \<open>
  The module is numeric glue over three collaborators: the lens descriptor, the
  lenstronomy rendering engine and the astropy table and unit library. The
  collaborators are parameters of the model (records of functions over opaque
  types); what the module itself computes is written out: the keyword
  dictionaries it builds, the flags it passes, the magnitude to amplitude
  conversion, the table it assembles, the time normalisation and the loops of
  the point source renderer. Python floats are read as real numbers.
\<close>

subsection \<open>Values, errors\<close>

type_synonym image = "real list list"

datatype pyval = PyInt int | PyFloat real | PyStr string

type_synonym kwargs = "string \<rightharpoonup> pyval"

datatype error =
    IndexError
  | ValueError string
  | UnitConversionError

definition ebind :: "error + 'a \<Rightarrow> ('a \<Rightarrow> error + 'b) \<Rightarrow> error + 'b" where
  "ebind m k = (case m of Inl e \<Rightarrow> Inl e | Inr x \<Rightarrow> k x)"

text \<open>Indexing a sequence with a non-negative index: out of range raises IndexError.\<close>

definition idx :: "'a list \<Rightarrow> nat \<Rightarrow> error + 'a" where
  "idx xs i = (if i < length xs then Inr (xs ! i) else Inl IndexError)"

text \<open>A loop that appends one result per element and stops at the first error.\<close>

fun mapM :: "('a \<Rightarrow> error + 'b) \<Rightarrow> 'a list \<Rightarrow> error + 'b list" where
  "mapM f [] = Inr []"
| "mapM f (x # xs) = ebind (f x) (\<lambda>y. ebind (mapM f xs) (\<lambda>ys. Inr (y # ys)))"

subsection \<open>Collaborators\<close>

text \<open>The lens descriptor (the \<open>lens_class\<close> argument), as far as the module calls it.\<close>

record ('km, 'p) lens_class =
  lenstronomy_kwargs :: "string \<Rightarrow> 'km \<times> (string \<rightharpoonup> 'p)"
  lens_position :: "real \<times> real"
  image_positions :: "real list \<times> real list"
  point_source_magnitude :: "string \<Rightarrow> bool \<Rightarrow> real list"
  image_observer_times :: "real \<Rightarrow> real list"

text \<open>
  The keyword arguments of \<open>ImageModel.image\<close>. A flag the caller does not pass
  is \<open>None\<close> (the library's default applies).
\<close>

record 'p image_args =
  kwargs_lens :: "'p option"
  kwargs_source :: "'p option"
  kwargs_lens_light :: "'p option"
  kwargs_ps :: "'p option"
  unconvolved :: "bool option"
  source_add :: "bool option"
  lens_light_add :: "bool option"
  point_source_add :: "bool option"

text \<open>
  lenstronomy's \<open>SimAPI\<close>: the constructor, \<open>magnitude2amplitude\<close>,
  \<open>image_model_class\<close> (given the numerics dictionary), the image model's
  \<open>image\<close>, \<open>noise_for_model\<close> (which draws from a random state \<open>'g\<close>), and the
  coordinate maps of \<open>data_class\<close>.
\<close>

record ('km, 'p, 'sim, 'im, 'dc, 'g) sim_api =
  SimAPI :: "nat \<Rightarrow> kwargs \<Rightarrow> 'km \<Rightarrow> 'sim"
  magnitude2amplitude ::
    "'sim \<Rightarrow> 'p option \<Rightarrow> 'p option \<Rightarrow> 'p option \<Rightarrow> 'p option \<times> 'p option \<times> 'p option"
  image_model_class :: "'sim \<Rightarrow> (string \<rightharpoonup> int) \<Rightarrow> 'im"
  image_model_image :: "'im \<Rightarrow> 'p image_args \<Rightarrow> image"
  noise_for_model :: "'sim \<Rightarrow> image \<Rightarrow> 'g \<Rightarrow> image \<times> 'g"
  data_class :: "'sim \<Rightarrow> 'dc"
  map_coord2pix :: "'dc \<Rightarrow> real \<Rightarrow> real \<Rightarrow> real \<times> real"
  map_pix2coord :: "'dc \<Rightarrow> real \<Rightarrow> real \<Rightarrow> real \<times> real"

text \<open>
  lenstronomy's \<open>PSF\<close> (of type PIXEL, from a kernel), \<open>PixelGrid\<close> (nx, ny, the
  transform matrix, the sky coordinate of pixel (0,0)) and \<open>PointSourceRendering\<close>
  (grid, supersampling factor, psf) with its \<open>point_source_rendering\<close> (ra, dec and
  amplitude arrays).
\<close>

record ('psf, 'grid, 'rc) ps_api =
  PSF :: "image \<Rightarrow> 'psf"
  PixelGrid :: "nat \<Rightarrow> nat \<Rightarrow> real list list \<Rightarrow> real \<Rightarrow> real \<Rightarrow> 'grid"
  PointSourceRendering :: "'grid \<Rightarrow> nat \<Rightarrow> 'psf \<Rightarrow> 'rc"
  point_source_rendering :: "'rc \<Rightarrow> real list \<Rightarrow> real list \<Rightarrow> real list \<Rightarrow> image"

subsection \<open>simulate_image\<close>



subsection \<open>sharp_image and the RGB composites\<close>

text \<open>The band configuration built by \<open>sharp_image\<close> and \<open>point_source_image_properties\<close>.\<close>

definition kwargs_band :: "real \<Rightarrow> real \<Rightarrow> kwargs" where
  "kwargs_band delta_pix mag_zero_point =
     [''pixel_scale'' \<mapsto> PyFloat delta_pix,
      ''magnitude_zero_point'' \<mapsto> PyFloat mag_zero_point,
      ''background_noise'' \<mapsto> PyInt 0,
      ''psf_type'' \<mapsto> PyStr ''NONE'',
      ''exposure_time'' \<mapsto> PyInt 1]"

definition sharp_image ::
  "('km, 'p, 'sim, 'im, 'dc, 'g) sim_api \<Rightarrow> ('km, 'p) lens_class \<Rightarrow> string \<Rightarrow> real \<Rightarrow> real \<Rightarrow>
   nat \<Rightarrow> bool \<Rightarrow> image" where
  "sharp_image S lens band mag_zero_point delta_pix num_pix with_deflector =
     (let (kwargs_model, kwargs_params) = lenstronomy_kwargs lens band;
          sim = SimAPI S num_pix (kwargs_band delta_pix mag_zero_point) kwargs_model;
          (k_lens_light, k_source, k_ps) =
             magnitude2amplitude S sim (kwargs_params ''kwargs_lens_light'')
               (kwargs_params ''kwargs_source'') (kwargs_params ''kwargs_ps'');
          kwargs_numerics = [''supersampling_factor'' \<mapsto> 1];
          image_model = image_model_class S sim kwargs_numerics;
          k_lens = kwargs_params ''kwargs_lens''
      in image_model_image S image_model
           \<lparr>kwargs_lens = k_lens, kwargs_source = k_source,
            kwargs_lens_light = k_lens_light, kwargs_ps = k_ps,
            unconvolved = Some True, source_add = Some True,
            lens_light_add = Some with_deflector, point_source_add = Some False\<rparr>)"

text \<open>
  \<open>rgb\<close> is astropy's \<open>make_lupton_rgb\<close> (red, green, blue, stretch). The band list
  and the image list are indexed at 0, 1 and 2.
\<close>

definition sharp_rgb_image ::
  "('km, 'p, 'sim, 'im, 'dc, 'g) sim_api \<Rightarrow> (image \<Rightarrow> image \<Rightarrow> image \<Rightarrow> real \<Rightarrow> 'rgb) \<Rightarrow>
   ('km, 'p) lens_class \<Rightarrow> string list \<Rightarrow> real \<Rightarrow> real \<Rightarrow> nat \<Rightarrow> error + 'rgb" where
  "sharp_rgb_image S rgb lens rgb_band_list mag_zero_point delta_pix num_pix =
     ebind (idx rgb_band_list 0) (\<lambda>band_r.
       let image_r = sharp_image S lens band_r mag_zero_point delta_pix num_pix True in
     ebind (idx rgb_band_list 1) (\<lambda>band_g.
       let image_g = sharp_image S lens band_g mag_zero_point delta_pix num_pix True in
     ebind (idx rgb_band_list 2) (\<lambda>band_b.
       let image_b = sharp_image S lens band_b mag_zero_point delta_pix num_pix True in
     Inr (rgb image_r image_g image_b 0.5))))"

definition rgb_image_from_image_list ::
  "(image \<Rightarrow> image \<Rightarrow> image \<Rightarrow> real \<Rightarrow> 'rgb) \<Rightarrow> image list \<Rightarrow> real \<Rightarrow> error + 'rgb" where
  "rgb_image_from_image_list rgb image_list stretch =
     ebind (idx image_list 0) (\<lambda>r.
     ebind (idx image_list 1) (\<lambda>g.
     ebind (idx image_list 2) (\<lambda>b.
     Inr (rgb r g b stretch))))"

subsection \<open>Magnitude to amplitude\<close>

text \<open>
  Lines 200-201 and 301-302: \<open>delta_m = mag - mag_zero_point\<close>,
  \<open>counts = 10 ** (-delta_m / 2.5)\<close>. This is the exact value; the source's
  doubles round it, underflow to 0.0 for a large \<open>delta_m\<close> and overflow for a
  large negative one, which the model does not follow.
\<close>

definition counts :: "real \<Rightarrow> real \<Rightarrow> real" where
  "counts mag mag_zero_point = (let delta_m = mag - mag_zero_point in 10 powr (- delta_m / 2.5))"

text \<open>The loop over \<open>range(len(image_magnitude))\<close> that fills \<open>image_amplitude\<close>.\<close>

definition amplitude_loop :: "real list \<Rightarrow> real \<Rightarrow> real list" where
  "amplitude_loop magnitudes mag_zero_point =
     map (\<lambda>i. counts (magnitudes ! i) mag_zero_point) [0..<length magnitudes]"

subsection \<open>The property table\<close>

text \<open>
  astropy's \<open>Table\<close> built from a list of seven columns and their names. Every
  element of the list is one column; the constructor raises ValueError unless all
  columns have one length, which is then the number of rows.
\<close>

record table =
  deflector_pix :: "real list"
  image_pix :: "(real \<times> real) list"
  ra_image :: "real list"
  dec_image :: "real list"
  image_amplitude :: "real list"
  image_magnitude :: "real list"
  radec_at_xy_0 :: "real list"

definition Table ::
  "real list \<Rightarrow> (real \<times> real) list \<Rightarrow> real list \<Rightarrow> real list \<Rightarrow> real list \<Rightarrow> real list \<Rightarrow>
   real list \<Rightarrow> error + table" where
  "Table c1 c2 c3 c4 c5 c6 c7 =
     (let lengths = remdups [length c1, length c2, length c3, length c4, length c5,
                             length c6, length c7]
      in if length lengths > 1 then Inl (ValueError ''Inconsistent data column lengths'')
         else Inr \<lparr>deflector_pix = c1, image_pix = c2, ra_image = c3, dec_image = c4,
                   image_amplitude = c5, image_magnitude = c6, radec_at_xy_0 = c7\<rparr>)"

text \<open>\<open>len(table)\<close>: the number of rows.\<close>

definition nrows :: "table \<Rightarrow> nat" where
  "nrows t = length (deflector_pix t)"

text \<open>
  Lines 167-202 of \<open>point_source_image_properties\<close>: the seven columns, in the order
  of the list handed to \<open>Table\<close>. \<open>map_coord2pix\<close> returns a pair, which makes a
  column of two numbers.
\<close>

definition point_source_columns ::
  "('km, 'p, 'sim, 'im, 'dc, 'g) sim_api \<Rightarrow> ('km, 'p) lens_class \<Rightarrow> string \<Rightarrow> real \<Rightarrow> real \<Rightarrow>
   nat \<Rightarrow> real list \<times> (real \<times> real) list \<times> real list \<times> real list \<times> real list \<times> real list
         \<times> real list" where
  "point_source_columns S lens band mag_zero_point delta_pix num_pix =
     (let (kwargs_model, kwargs_params) = lenstronomy_kwargs lens band;
          sim = SimAPI S num_pix (kwargs_band delta_pix mag_zero_point) kwargs_model;
          image_data = data_class S sim;
          (ra_lens_value, dec_lens_value) = lens_position lens;
          (lens_x, lens_y) = map_coord2pix S image_data ra_lens_value dec_lens_value;
          (ra_image_values, dec_image_values) = image_positions lens;
          magnitudes = point_source_magnitude lens band True;
          image_pix_coordinate =
             map (\<lambda>(image_ra, image_dec). map_coord2pix S image_data image_ra image_dec)
               (zip ra_image_values dec_image_values);
          (ra_at_xy_0, dec_at_xy_0) = map_pix2coord S image_data 0 0;
          amplitudes = amplitude_loop magnitudes mag_zero_point
      in ([lens_x, lens_y], image_pix_coordinate, ra_image_values, dec_image_values,
          amplitudes, magnitudes, [ra_at_xy_0, dec_at_xy_0]))"

text \<open>Lines 204-223: the table of these columns.\<close>

definition point_source_image_properties ::
  "('km, 'p, 'sim, 'im, 'dc, 'g) sim_api \<Rightarrow> ('km, 'p) lens_class \<Rightarrow> string \<Rightarrow> real \<Rightarrow> real \<Rightarrow>
   nat \<Rightarrow> error + table" where
  "point_source_image_properties S lens band mag_zero_point delta_pix num_pix =
     (case point_source_columns S lens band mag_zero_point delta_pix num_pix of
        (c1, c2, c3, c4, c5, c6, c7) \<Rightarrow> Table c1 c2 c3 c4 c5 c6 c7)"

subsection \<open>Observation times\<close>

text \<open>
  An astropy quantity: the values and their unit. \<open>to_day\<close> is \<open>.to(u.day)\<close>: a unit
  of time is rescaled, any other unit raises the conversion error.
\<close>

datatype time_unit = day | hour | minute | second | meter

record quantity =
  q_value :: "real list"
  q_unit :: time_unit

fun scale_to_day :: "time_unit \<Rightarrow> real option" where
  "scale_to_day day = Some 1"
| "scale_to_day hour = Some (1 / 24)"
| "scale_to_day minute = Some (1 / 1440)"
| "scale_to_day second = Some (1 / 86400)"
| "scale_to_day meter = None"

definition to_day :: "quantity \<Rightarrow> error + quantity" where
  "to_day q =
     (case scale_to_day (q_unit q) of
        None \<Rightarrow> Inl UnitConversionError
      | Some k \<Rightarrow> Inr \<lparr>q_value = map (\<lambda>t. t * k) (q_value q), q_unit = day\<rparr>)"

text \<open>
  Lines 275-280: the first \<open>if\<close> keeps a time in days and converts any other; the
  second \<open>if\<close> converts again when the unit is the minute.
\<close>

definition normalise_time :: "quantity \<Rightarrow> error + quantity" where
  "normalise_time vtime =
     ebind (if q_unit vtime = day then Inr vtime else to_day vtime) (\<lambda>time1.
       if q_unit vtime = minute then to_day vtime else Inr time1)"

subsection \<open>point_source_image\<close>

record variability =
  time :: quantity
  variability_model :: string
  kwargs_variability :: kwargs

datatype ps_output = Stamps "image list" | EpochStamps "image list list"

definition unsupported_model :: error where
  "unsupported_model =
     ValueError ''given model is not supported. Currently,supported model is sinusoudal.''"

text \<open>\<open>np.array(rows).T.tolist()\<close>: rows of unequal length make no array.\<close>

definition np_array_T :: "real list list \<Rightarrow> error + real list list" where
  "np_array_T rows =
     (case rows of
        [] \<Rightarrow> Inr []
      | r # rs \<Rightarrow>
          if list_all (\<lambda>r'. length r' = length r) rs
          then Inr (map (\<lambda>i. map (\<lambda>row. row ! i) rows) [0..<length r])
          else Inl (ValueError ''inhomogeneous shape''))"

text \<open>\<open>np.array(xs).reshape(n, m)\<close>.\<close>

definition reshape :: "nat \<Rightarrow> nat \<Rightarrow> 'a list \<Rightarrow> error + 'a list list" where
  "reshape n m xs =
     (if length xs = n * m then Inr (map (\<lambda>i. take m (drop (i * m) xs)) [0..<n])
      else Inl (ValueError ''cannot reshape array''))"

text \<open>One stamp: \<open>PointSourceRendering(grid, 1, psf).point_source_rendering([ra], [dec], [a])\<close>.\<close>

definition stamp :: "('psf, 'grid, 'rc) ps_api \<Rightarrow> 'grid \<Rightarrow> 'psf \<Rightarrow> real \<Rightarrow> real \<Rightarrow> real \<Rightarrow> image" where
  "stamp P grid psf ra dec a =
     point_source_rendering P (PointSourceRendering P grid 1 psf) [ra] [dec] [a]"

text \<open>
  \<open>sinusoidal_variability\<close> is the method of \<open>Variability(**kwargs_variability)\<close>: a
  magnitude offset for a time in days.
\<close>

definition point_source_image ::
  "('km, 'p, 'sim, 'im, 'dc, 'g) sim_api \<Rightarrow> ('psf, 'grid, 'rc) ps_api \<Rightarrow>
   (kwargs \<Rightarrow> real \<Rightarrow> real) \<Rightarrow> ('km, 'p) lens_class \<Rightarrow> string \<Rightarrow> real \<Rightarrow> real \<Rightarrow> nat \<Rightarrow>
   image list \<Rightarrow> variability option \<Rightarrow> error + ps_output" where
  "point_source_image S P sinusoidal_variability lens band mag_zero_point delta_pix num_pix
       psf_kernels variability_opt =
     ebind (point_source_image_properties S lens band mag_zero_point delta_pix num_pix)
       (\<lambda>image_data.
     ebind (idx (radec_at_xy_0 image_data) 0) (\<lambda>ra_at_xy_0.
     ebind (idx (radec_at_xy_0 image_data) 1) (\<lambda>dec_at_xy_0.
     let transform_matrix = [[delta_pix, 0], [0, delta_pix]];
         grid = PixelGrid P num_pix num_pix transform_matrix ra_at_xy_0 dec_at_xy_0;
         ra_image_values = ra_image image_data;
         dec_image_values = dec_image image_data;
         amp = image_amplitude image_data;
         magnitude = point_source_magnitude lens band True;
         psf_class = map (\<lambda>i. PSF P (psf_kernels ! i)) [0..<length psf_kernels]
     in case variability_opt of
          None \<Rightarrow>
            ebind (mapM (\<lambda>i.
                     ebind (idx ra_image_values i) (\<lambda>ra.
                     ebind (idx dec_image_values i) (\<lambda>dec.
                     ebind (idx amp i) (\<lambda>a.
                     Inr (stamp P grid (psf_class ! i) ra dec a)))))
                   [0..<length psf_class])
              (\<lambda>point_source_images. Inr (Stamps point_source_images))
        | Some v \<Rightarrow>
            ebind (normalise_time (time v)) (\<lambda>time_d.
            ebind (if variability_model v = ''sinusoidal''
                   then Inr (sinusoidal_variability (kwargs_variability v))
                   else Inl unsupported_model) (\<lambda>func.
            let observed_time = map (image_observer_times lens) (q_value time_d) in
            ebind (np_array_T observed_time) (\<lambda>transformed_observed_time.
            let n = length magnitude; m = length (q_value time_d) in
            ebind (mapM (\<lambda>(i, j).
                     ebind (idx transformed_observed_time i) (\<lambda>row.
                     ebind (idx row j) (\<lambda>t.
                     Inr (magnitude ! i + func t))))
                   (List.product [0..<n] [0..<m])) (\<lambda>variable_mag_array.
            ebind (reshape n m variable_mag_array) (\<lambda>variable_mag.
            ebind (mapM (\<lambda>(i, j).
                     ebind (idx variable_mag i) (\<lambda>row.
                     ebind (idx row j) (\<lambda>vm.
                     Inr (counts vm mag_zero_point))))
                   (List.product [0..<n] [0..<m])) (\<lambda>variable_amp_array.
            ebind (reshape n m variable_amp_array) (\<lambda>variable_amp.
            ebind (mapM (\<lambda>i.
                     mapM (\<lambda>j.
                       ebind (idx ra_image_values i) (\<lambda>ra.
                       ebind (idx dec_image_values i) (\<lambda>dec.
                       ebind (idx variable_amp i) (\<lambda>row.
                       ebind (idx row j) (\<lambda>a.
                       Inr (stamp P grid (psf_class ! i) ra dec a))))))
                     [0..<m])
                   [0..<length psf_class])
              (\<lambda>point_source_images. Inr (EpochStamps point_source_images))))))))))))"

subsection \<open>Example inputs\<close>

text \<open>
  A renderer that returns its arguments, a lens with two images and one with four.
  The images of \<open>double_lens\<close> arrive without delay and one day late.
\<close>

definition example_sim :: "(unit, unit, nat, nat, unit, nat) sim_api" where
  "example_sim =
     \<lparr>SimAPI = (\<lambda>num_pix kb km. num_pix),
      magnitude2amplitude = (\<lambda>sim a b c. (a, b, c)),
      image_model_class = (\<lambda>sim numerics. sim),
      image_model_image = (\<lambda>im args. [[0]]),
      noise_for_model = (\<lambda>sim img g. (img, g)),
      data_class = (\<lambda>sim. ()),
      map_coord2pix = (\<lambda>dc ra dec. (ra, dec)),
      map_pix2coord = (\<lambda>dc x y. (x, y))\<rparr>"

definition example_ps :: "(image, real \<times> real, (real \<times> real) \<times> image) ps_api" where
  "example_ps =
     \<lparr>PSF = (\<lambda>kernel. kernel),
      PixelGrid = (\<lambda>nx ny m ra dec. (ra, dec)),
      PointSourceRendering = (\<lambda>grid s psf. (grid, psf)),
      point_source_rendering = (\<lambda>rc ra dec a. [ra, dec, a])\<rparr>"

definition double_lens :: "(unit, unit) lens_class" where
  "double_lens =
     \<lparr>lenstronomy_kwargs = (\<lambda>band. ((), Map.empty)),
      lens_position = (0, 0),
      image_positions = ([1, - 1], [2, - 2]),
      point_source_magnitude = (\<lambda>band lensed. [25, 30]),
      image_observer_times = (\<lambda>t. [t, t + 1])\<rparr>"

definition quad_lens :: "(unit, unit) lens_class" where
  "quad_lens =
     \<lparr>lenstronomy_kwargs = (\<lambda>band. ((), Map.empty)),
      lens_position = (0, 0),
      image_positions = ([1, - 1, 1, - 1], [2, 2, - 2, - 2]),
      point_source_magnitude = (\<lambda>band lensed. [25, 30, 25, 30]),
      image_observer_times = (\<lambda>t. [t, t + 1, t + 2, t + 3])\<rparr>"

definition double_lens_no_delay :: "(unit, unit) lens_class" where
  "double_lens_no_delay = double_lens\<lparr>image_observer_times := (\<lambda>t. [t, t])\<rparr>"

text \<open>Two epochs, at day 0 and day 1, under a model of the given name.\<close>

definition two_epochs :: "string \<Rightarrow> variability" where
  "two_epochs name =
     \<lparr>time = \<lparr>q_value = [0, 1], q_unit = day\<rparr>, variability_model = name,
      kwargs_variability = Map.empty\<rparr>"

section \<open>Properties\<close>

subsection \<open>The image renderers\<close>


text \<open>
  C10. Every call to \<open>sharp_image\<close> returns the renderer's output for an image model
  with the numerics dictionary \<open>supersampling_factor = 1\<close>, asked for an unconvolved
  image with source light, without point sources, and with lens light exactly when
  \<open>with_deflector\<close> is true; no noise is drawn. The band configuration has background
  noise 0, PSF type NONE and exposure time 1, with the caller's pixel scale and zero
  point.
\<close>

theorem sharp_image_request:
  "\<exists>sim im a kb.
     sharp_image S lens band mag_zero_point delta_pix num_pix with_deflector
       = image_model_image S im a
     \<and> im = image_model_class S sim [''supersampling_factor'' \<mapsto> 1]
     \<and> sim = SimAPI S num_pix kb (fst (lenstronomy_kwargs lens band))
     \<and> kb ''background_noise'' = Some (PyInt 0)
     \<and> kb ''psf_type'' = Some (PyStr ''NONE'')
     \<and> kb ''exposure_time'' = Some (PyInt 1)
     \<and> kb ''pixel_scale'' = Some (PyFloat delta_pix)
     \<and> kb ''magnitude_zero_point'' = Some (PyFloat mag_zero_point)
     \<and> unconvolved a = Some True
     \<and> source_add a = Some True
     \<and> lens_light_add a = Some with_deflector
     \<and> point_source_add a = Some False"
proof -
  obtain km kp where kw: "lenstronomy_kwargs lens band = (km, kp)"
    by (cases "lenstronomy_kwargs lens band")
  define kb where "kb = kwargs_band delta_pix mag_zero_point"
  define sim where "sim = SimAPI S num_pix kb km"
  obtain kll ks kps where amp:
    "magnitude2amplitude S sim (kp ''kwargs_lens_light'') (kp ''kwargs_source'')
       (kp ''kwargs_ps'') = (kll, ks, kps)"
    by (cases "magnitude2amplitude S sim (kp ''kwargs_lens_light'') (kp ''kwargs_source'')
       (kp ''kwargs_ps'')")
  define im where "im = image_model_class S sim [''supersampling_factor'' \<mapsto> 1]"
  define a where "a = \<lparr>kwargs_lens = kp ''kwargs_lens'', kwargs_source = ks,
            kwargs_lens_light = kll, kwargs_ps = kps,
            unconvolved = Some True, source_add = Some True,
            lens_light_add = Some with_deflector, point_source_add = Some False\<rparr>"
  have run: "sharp_image S lens band mag_zero_point delta_pix num_pix with_deflector
       = image_model_image S im a"
    using amp by (simp add: sharp_image_def kw sim_def kb_def im_def a_def)
  have cfg: "kb ''background_noise'' = Some (PyInt 0) \<and> kb ''psf_type'' = Some (PyStr ''NONE'')
     \<and> kb ''exposure_time'' = Some (PyInt 1) \<and> kb ''pixel_scale'' = Some (PyFloat delta_pix)
     \<and> kb ''magnitude_zero_point'' = Some (PyFloat mag_zero_point)"
    by (simp add: kb_def kwargs_band_def)
  have flags: "unconvolved a = Some True \<and> source_add a = Some True
     \<and> lens_light_add a = Some with_deflector \<and> point_source_add a = Some False"
    by (simp add: a_def)
  have s: "sim = SimAPI S num_pix kb (fst (lenstronomy_kwargs lens band))"
    by (simp add: sim_def kw)
  from run im_def s cfg flags show ?thesis
    by blast
qed

text \<open>
  C8. For a band list of three elements, \<open>sharp_rgb_image\<close> returns what
  \<open>rgb_image_from_image_list\<close> returns on the three sharp images of the red, green
  and blue band (deflector light included) with stretch 0.5.
\<close>

theorem sharp_rgb_image_composite:
  "sharp_rgb_image S rgb lens [band_r, band_g, band_b] mag_zero_point delta_pix num_pix
     = rgb_image_from_image_list rgb
         [sharp_image S lens band_r mag_zero_point delta_pix num_pix True,
          sharp_image S lens band_g mag_zero_point delta_pix num_pix True,
          sharp_image S lens band_b mag_zero_point delta_pix num_pix True] 0.5"
  by (simp add: sharp_rgb_image_def rgb_image_from_image_list_def ebind_def idx_def Let_def)

subsection \<open>Auxiliary facts about the property table\<close>

lemma remdups_gt1: "length (remdups xs) > 1 \<longleftrightarrow> \<not> (\<forall>a\<in>set xs. \<forall>b\<in>set xs. a = b)"
proof -
  have "length (remdups xs) = card (set xs)" by (simp add: length_remdups_card_conv)
  moreover have "card (set xs) \<le> Suc 0 \<longleftrightarrow> (\<forall>a\<in>set xs. \<forall>b\<in>set xs. a = b)"
    by (rule card_le_Suc0_iff_eq) simp
  ultimately show ?thesis by auto
qed

lemma Table_Inr_iff:
  "Table c1 c2 c3 c4 c5 c6 c7 = Inr t \<longleftrightarrow>
     (length c2 = length c1 \<and> length c3 = length c1 \<and> length c4 = length c1
      \<and> length c5 = length c1 \<and> length c6 = length c1 \<and> length c7 = length c1
      \<and> t = \<lparr>deflector_pix = c1, image_pix = c2, ra_image = c3, dec_image = c4,
                   image_amplitude = c5, image_magnitude = c6, radec_at_xy_0 = c7\<rparr>)"
  unfolding Table_def Let_def remdups_gt1 by auto

lemma Table_Inl_iff:
  "Table c1 c2 c3 c4 c5 c6 c7 = Inl e \<longleftrightarrow>
     (\<not> (length c2 = length c1 \<and> length c3 = length c1 \<and> length c4 = length c1
      \<and> length c5 = length c1 \<and> length c6 = length c1 \<and> length c7 = length c1)
      \<and> e = ValueError ''Inconsistent data column lengths'')"
  unfolding Table_def Let_def remdups_gt1 by auto

lemma length_amplitude_loop: "length (amplitude_loop ms zp) = length ms"
  by (simp add: amplitude_loop_def)

lemma nth_amplitude_loop: "i < length ms \<Longrightarrow> amplitude_loop ms zp ! i = counts (ms ! i) zp"
  by (simp add: amplitude_loop_def)

lemma amplitude_loop_map: "amplitude_loop ms zp = map (\<lambda>m. counts m zp) ms"
  by (rule nth_equalityI) (simp_all add: amplitude_loop_def)

lemma columns_shape:
  assumes "point_source_columns S lens band zp dp np = (c1, c2, c3, c4, c5, c6, c7)"
  shows "length c1 = 2" and "length c7 = 2"
    and "c3 = fst (image_positions lens)" and "c4 = snd (image_positions lens)"
    and "c6 = point_source_magnitude lens band True"
    and "c5 = amplitude_loop (point_source_magnitude lens band True) zp"
    and "length c2 = min (length c3) (length c4)"
  using assms
  by (auto simp: point_source_columns_def Let_def split: prod.splits)

lemma props_Inr:
  assumes "point_source_image_properties S lens band zp dp np = Inr tbl"
  shows "ra_image tbl = fst (image_positions lens)"
    and "dec_image tbl = snd (image_positions lens)"
    and "image_magnitude tbl = point_source_magnitude lens band True"
    and "image_amplitude tbl = amplitude_loop (point_source_magnitude lens band True) zp"
    and "length (fst (image_positions lens)) = 2"
    and "length (snd (image_positions lens)) = 2"
    and "length (point_source_magnitude lens band True) = 2"
    and "length (radec_at_xy_0 tbl) = 2"
    and "length (deflector_pix tbl) = 2"
    and "length (image_pix tbl) = 2"
proof -
  obtain c1 c2 c3 c4 c5 c6 c7 where
    cols: "point_source_columns S lens band zp dp np = (c1, c2, c3, c4, c5, c6, c7)"
    by (metis prod_cases7)
  from assms cols have tab: "Table c1 c2 c3 c4 c5 c6 c7 = Inr tbl"
    by (simp add: point_source_image_properties_def)
  note sh = columns_shape[OF cols]
  from tab have t: "tbl = \<lparr>deflector_pix = c1, image_pix = c2, ra_image = c3, dec_image = c4,
                   image_amplitude = c5, image_magnitude = c6, radec_at_xy_0 = c7\<rparr>"
    and len: "length c2 = length c1" "length c3 = length c1" "length c4 = length c1"
      "length c5 = length c1" "length c6 = length c1" "length c7 = length c1"
    by (simp_all add: Table_Inr_iff)
  show "ra_image tbl = fst (image_positions lens)" using t sh by simp
  show "dec_image tbl = snd (image_positions lens)" using t sh by simp
  show "image_magnitude tbl = point_source_magnitude lens band True" using t sh by simp
  show "image_amplitude tbl = amplitude_loop (point_source_magnitude lens band True) zp"
    using t sh by simp
  show "length (fst (image_positions lens)) = 2" using len sh by simp
  show "length (snd (image_positions lens)) = 2" using len sh by simp
  show "length (point_source_magnitude lens band True) = 2" using len sh by simp
  show "length (radec_at_xy_0 tbl) = 2" using t sh by simp
  show "length (deflector_pix tbl) = 2" using t sh by simp
  show "length (image_pix tbl) = 2" using t len sh by simp
qed

lemma double_props:
  "point_source_image_properties example_sim double_lens band zp dp np
     = Inr \<lparr>deflector_pix = [0, 0], image_pix = [(1, 2), (- 1, - 2)], ra_image = [1, - 1],
            dec_image = [2, - 2], image_amplitude = [counts 25 zp, counts 30 zp],
            image_magnitude = [25, 30], radec_at_xy_0 = [0, 0]\<rparr>"
  by (simp add: point_source_image_properties_def point_source_columns_def example_sim_def
      double_lens_def Table_def amplitude_loop_def Let_def upt_rec)


subsection \<open>The property table\<close>

text \<open>
  C6. For a lens with \<open>n\<close> images (\<open>n\<close> right ascensions, declinations and
  magnitudes) the deflector pixel column and the pixel origin column have length 2
  and the five per-image columns have length \<open>n\<close>. The table is built exactly when
  \<open>n = 2\<close> and then has 2 rows; for any other \<open>n\<close> the call fails with the
  table's ValueError.
\<close>

theorem table_needs_two_images:
  assumes "length (fst (image_positions lens)) = n"
    and "length (snd (image_positions lens)) = n"
    and "length (point_source_magnitude lens band True) = n"
  shows "(case point_source_columns S lens band zp dp np of
            (c1, c2, c3, c4, c5, c6, c7) \<Rightarrow>
              length c1 = 2 \<and> length c7 = 2 \<and> length c2 = n \<and> length c3 = n
              \<and> length c4 = n \<and> length c5 = n \<and> length c6 = n)
       \<and> ((\<exists>t. point_source_image_properties S lens band zp dp np = Inr t) \<longleftrightarrow> n = 2)
       \<and> (\<forall>t. point_source_image_properties S lens band zp dp np = Inr t \<longrightarrow> nrows t = 2)
       \<and> (n \<noteq> 2 \<longrightarrow> point_source_image_properties S lens band zp dp np
                      = Inl (ValueError ''Inconsistent data column lengths''))"
proof -
  obtain c1 c2 c3 c4 c5 c6 c7 where
    cols: "point_source_columns S lens band zp dp np = (c1, c2, c3, c4, c5, c6, c7)"
    by (metis prod_cases7)
  note sh = columns_shape[OF cols]
  have len: "length c1 = 2" "length c7 = 2" "length c2 = n" "length c3 = n" "length c4 = n"
    "length c5 = n" "length c6 = n"
    using sh assms by (simp_all add: length_amplitude_loop)
  have props: "point_source_image_properties S lens band zp dp np = Table c1 c2 c3 c4 c5 c6 c7"
    by (simp add: point_source_image_properties_def cols)
  have ok: "(\<exists>t. point_source_image_properties S lens band zp dp np = Inr t) \<longleftrightarrow> n = 2"
    unfolding props Table_Inr_iff using len by auto
  have rows: "\<forall>t. point_source_image_properties S lens band zp dp np = Inr t \<longrightarrow> nrows t = 2"
    unfolding props Table_Inr_iff nrows_def using len by auto
  have bad: "point_source_image_properties S lens band zp dp np
               = Inl (ValueError ''Inconsistent data column lengths'')" if "n \<noteq> 2"
    unfolding props Table_Inl_iff using len that by auto
  from len ok rows bad show ?thesis by (simp add: cols)
qed

text \<open>The theorem on the lens with two images (a table of 2 rows) and on the lens with four
  (the error).\<close>

theorem table_needs_two_images_witness:
  "length (fst (image_positions double_lens)) = 2
   \<and> length (snd (image_positions double_lens)) = 2
   \<and> length (point_source_magnitude double_lens ''i'' True) = 2
   \<and> nrows \<lparr>deflector_pix = [0, 0], image_pix = [(1, 2), (- 1, - 2)], ra_image = [1, - 1],
            dec_image = [2, - 2], image_amplitude = [counts 25 25, counts 30 25],
            image_magnitude = [25, 30], radec_at_xy_0 = [0, 0]\<rparr> = 2
   \<and> length (fst (image_positions quad_lens)) = 4
   \<and> length (snd (image_positions quad_lens)) = 4
   \<and> length (point_source_magnitude quad_lens ''i'' True) = 4
   \<and> (4 :: nat) \<noteq> 2
   \<and> point_source_image_properties example_sim quad_lens ''i'' 25 (1 / 5) 10
        = Inl (ValueError ''Inconsistent data column lengths'')"
proof -
  have d: "length (fst (image_positions double_lens)) = 2"
    "length (snd (image_positions double_lens)) = 2"
    "length (point_source_magnitude double_lens ''i'' True) = 2"
    by (simp_all add: double_lens_def)
  have q: "length (fst (image_positions quad_lens)) = 4"
    "length (snd (image_positions quad_lens)) = 4"
    "length (point_source_magnitude quad_lens ''i'' True) = 4"
    by (simp_all add: quad_lens_def)
  have r: "nrows \<lparr>deflector_pix = [0, 0], image_pix = [(1, 2), (- 1, - 2)], ra_image = [1, - 1],
            dec_image = [2, - 2], image_amplitude = [counts 25 25, counts 30 25],
            image_magnitude = [25, 30], radec_at_xy_0 = [0, 0]\<rparr> = 2"
    using table_needs_two_images[OF d, of example_sim 25 "1 / 5" 10] double_props by blast
  have f: "point_source_image_properties example_sim quad_lens ''i'' 25 (1 / 5) 10
        = Inl (ValueError ''Inconsistent data column lengths'')"
    using table_needs_two_images[OF q, of example_sim 25 "1 / 5" 10] by simp
  from d q r f show ?thesis by simp
qed

text \<open>
  C5, as stated (one row spanning all images), fails: on the lens with two images the
  table has 2 rows.
\<close>

theorem properties_table_rows_counterexample:
  "point_source_image_properties example_sim double_lens ''i'' 25 (1 / 5) 10
     = Inr \<lparr>deflector_pix = [0, 0], image_pix = [(1, 2), (- 1, - 2)], ra_image = [1, - 1],
            dec_image = [2, - 2], image_amplitude = [counts 25 25, counts 30 25],
            image_magnitude = [25, 30], radec_at_xy_0 = [0, 0]\<rparr>
   \<and> nrows \<lparr>deflector_pix = [0, 0], image_pix = [(1, 2), (- 1, - 2)], ra_image = [1, - 1],
            dec_image = [2, - 2], image_amplitude = [counts 25 25, counts 30 25],
            image_magnitude = [25, 30], radec_at_xy_0 = [0, 0]\<rparr> = 2
   \<and> nrows \<lparr>deflector_pix = [0, 0], image_pix = [(1, 2), (- 1, - 2)], ra_image = [1, - 1],
            dec_image = [2, - 2], image_amplitude = [counts 25 25, counts 30 25],
            image_magnitude = [25, 30], radec_at_xy_0 = [0, 0]\<rparr> \<noteq> 1"
  by (simp add: double_props nrows_def)

text \<open>
  C5, amended. When \<open>point_source_image_properties\<close> returns a table, the table has
  the seven columns of the outputs (deflector pixel coordinate, image pixel
  coordinates, image right ascensions and declinations, amplitudes, magnitudes, sky
  coordinate of pixel (0,0)), every column has as many entries as the table has
  rows, and the table has one row per lensed image.
\<close>

theorem properties_table_columns:
  assumes "point_source_image_properties S lens band zp dp np = Inr t"
  shows "(deflector_pix t, image_pix t, ra_image t, dec_image t, image_amplitude t,
          image_magnitude t, radec_at_xy_0 t) = point_source_columns S lens band zp dp np
       \<and> ra_image t = fst (image_positions lens)
       \<and> dec_image t = snd (image_positions lens)
       \<and> image_magnitude t = point_source_magnitude lens band True
       \<and> image_amplitude t = map (\<lambda>m. counts m zp) (point_source_magnitude lens band True)
       \<and> nrows t = length (point_source_magnitude lens band True)
       \<and> length (deflector_pix t) = nrows t \<and> length (image_pix t) = nrows t
       \<and> length (ra_image t) = nrows t \<and> length (dec_image t) = nrows t
       \<and> length (image_amplitude t) = nrows t \<and> length (image_magnitude t) = nrows t
       \<and> length (radec_at_xy_0 t) = nrows t"
proof -
  obtain c1 c2 c3 c4 c5 c6 c7 where
    cols: "point_source_columns S lens band zp dp np = (c1, c2, c3, c4, c5, c6, c7)"
    by (metis prod_cases7)
  from assms cols have "Table c1 c2 c3 c4 c5 c6 c7 = Inr t"
    by (simp add: point_source_image_properties_def)
  then have t: "t = \<lparr>deflector_pix = c1, image_pix = c2, ra_image = c3, dec_image = c4,
                   image_amplitude = c5, image_magnitude = c6, radec_at_xy_0 = c7\<rparr>"
    by (simp add: Table_Inr_iff)
  have a: "(deflector_pix t, image_pix t, ra_image t, dec_image t, image_amplitude t,
          image_magnitude t, radec_at_xy_0 t) = point_source_columns S lens band zp dp np"
    by (simp add: t cols)
  note p = props_Inr[OF assms]
  from a p show ?thesis
    by (simp add: nrows_def amplitude_loop_map)
qed

text \<open>The theorem on the lens with two images.\<close>

theorem properties_table_columns_witness:
  "point_source_image_properties example_sim double_lens ''i'' 25 (1 / 5) 10
     = Inr \<lparr>deflector_pix = [0, 0], image_pix = [(1, 2), (- 1, - 2)], ra_image = [1, - 1],
            dec_image = [2, - 2], image_amplitude = [counts 25 25, counts 30 25],
            image_magnitude = [25, 30], radec_at_xy_0 = [0, 0]\<rparr>
   \<and> ([0, 0], [(1, 2), (- 1, - 2)], [1, - 1], [2, - 2], [counts 25 25, counts 30 25],
       [25, 30], [0, 0]) = point_source_columns example_sim double_lens ''i'' 25 (1 / 5) 10
   \<and> nrows \<lparr>deflector_pix = [0, 0], image_pix = [(1, 2), (- 1, - 2)], ra_image = [1, - 1],
            dec_image = [2, - 2], image_amplitude = [counts 25 25, counts 30 25],
            image_magnitude = [25, 30], radec_at_xy_0 = [0, 0]\<rparr>
        = length (point_source_magnitude double_lens ''i'' True)"
proof -
  note p = double_props[of "''i''" 25 "1 / 5" 10]
  note f = properties_table_columns[OF p]
  have a: "([0, 0], [(1, 2), (- 1, - 2)], [1, - 1], [2, - 2], [counts 25 25, counts 30 25],
       [25, 30], [0, 0]) = point_source_columns example_sim double_lens ''i'' 25 (1 / 5) 10"
    using conjunct1[OF f] by (simp only: table.select_convs)
  have b: "nrows \<lparr>deflector_pix = [0, 0], image_pix = [(1, 2), (- 1, - 2)], ra_image = [1, - 1],
            dec_image = [2, - 2], image_amplitude = [counts 25 25, counts 30 25],
            image_magnitude = [25, 30], radec_at_xy_0 = [0, 0]\<rparr>
        = length (point_source_magnitude double_lens ''i'' True)"
    using f by blast
  from p a b show ?thesis by blast
qed

subsection \<open>Time normalisation\<close>

text \<open>
  C4, as stated (a time in seconds is left unconverted), fails: 86400 seconds become
  1 day.
\<close>

theorem normalise_time_seconds_counterexample:
  "normalise_time \<lparr>q_value = [86400], q_unit = second\<rparr> = Inr \<lparr>q_value = [1], q_unit = day\<rparr>
   \<and> normalise_time \<lparr>q_value = [86400], q_unit = second\<rparr>
        \<noteq> Inr \<lparr>q_value = [86400], q_unit = second\<rparr>"
  by (simp add: normalise_time_def to_day_def ebind_def)

text \<open>
  C4, amended. The observation times are converted to days whatever their unit: a
  time in days is kept, a time in any other unit of time is rescaled by the
  \<open>else\<close> branch (the later minute check repeats that conversion), and a unit that
  is no time raises the conversion error.
\<close>

theorem normalise_time_converts:
  "normalise_time q =
     (case scale_to_day (q_unit q) of
        None \<Rightarrow> Inl UnitConversionError
      | Some k \<Rightarrow> Inr \<lparr>q_value = map (\<lambda>t. t * k) (q_value q), q_unit = day\<rparr>)"
  by (cases q, cases "q_unit q") (simp_all add: normalise_time_def to_day_def ebind_def)

subsection \<open>Auxiliary facts about the loops of the point source renderer\<close>

lemma ebind_Inr: "ebind (Inr x) k = k x"
  by (simp add: ebind_def)


lemma idx_in: "i < length xs \<Longrightarrow> idx xs i = Inr (xs ! i)"
  by (simp add: idx_def)

lemma mapM_Inr:
  assumes "\<And>x. x \<in> set xs \<Longrightarrow> f x = Inr (g x)"
  shows "mapM f xs = Inr (map g xs)"
  using assms by (induction xs) (simp_all add: ebind_Inr)

lemma take_drop_concat:
  assumes "\<And>xs. xs \<in> set xss \<Longrightarrow> length xs = m" and "i < length xss"
  shows "take m (drop (i * m) (concat xss)) = xss ! i"
  using assms
proof (induction xss arbitrary: i)
  case Nil
  then show ?case by simp
next
  case (Cons xs xss)
  have len: "length xs = m" using Cons.prems(1) by simp
  show ?case
  proof (cases i)
    case 0
    then show ?thesis using len by simp
  next
    case (Suc k)
    have "drop (Suc k * m) (concat (xs # xss)) = drop (k * m) (concat xss)"
      using len by simp
    moreover have "take m (drop (k * m) (concat xss)) = xss ! k"
      using Cons.IH[of k] Cons.prems Suc by simp
    ultimately show ?thesis using Suc by simp
  qed
qed

lemma reshape_product:
  "reshape n m (map h (List.product [0..<n] [0..<m]))
     = Inr (map (\<lambda>i. map (\<lambda>j. h (i, j)) [0..<m]) [0..<n])"
proof -
  let ?rows = "map (\<lambda>i. map (\<lambda>j. h (i, j)) [0..<m]) [0..<n]"
  have flat: "map h (List.product [0..<n] [0..<m]) = concat ?rows"
    by (simp add: List.product_concat_map map_concat comp_def)
  have len: "length (concat ?rows) = n * m"
    by (simp add: length_concat comp_def sum_list_triv)
  have row: "take m (drop (i * m) (concat ?rows)) = ?rows ! i" if "i < n" for i
    by (rule take_drop_concat) (use that in auto)
  have "map (\<lambda>i. take m (drop (i * m) (concat ?rows))) [0..<n] = ?rows"
    by (rule nth_equalityI) (simp_all add: row)
  then show ?thesis
    unfolding reshape_def flat using len by simp
qed

lemma np_array_T_rect:
  assumes "\<And>r. r \<in> set rows \<Longrightarrow> length r = n" and "rows \<noteq> []"
  shows "np_array_T rows = Inr (map (\<lambda>i. map (\<lambda>row. row ! i) rows) [0..<n])"
proof -
  obtain r rs where rows: "rows = r # rs" using assms(2) by (cases rows) auto
  have "length r = n" and "list_all (\<lambda>r'. length r' = length r) rs"
    using assms(1) rows by (auto simp: list_all_iff)
  then show ?thesis by (simp add: np_array_T_def rows)
qed

lemma np_array_T_total:
  assumes "\<And>r. r \<in> set rows \<Longrightarrow> length r = n"
  shows "\<exists>T. np_array_T rows = Inr T
           \<and> (rows \<noteq> [] \<longrightarrow> T = map (\<lambda>i. map (\<lambda>row. row ! i) rows) [0..<n])"
proof (cases "rows = []")
  case True
  then show ?thesis by (simp add: np_array_T_def)
next
  case False
  then show ?thesis using np_array_T_rect[OF assms] by simp
qed

text \<open>
  The variability path, run to its end: the property table is built, the model is the
  sinusoidal one, the times convert to days, the lens gives one observer time per
  image at every epoch, and there is one kernel per image.
\<close>

lemma point_source_image_Some:
  assumes props: "point_source_image_properties S lens band zp dp np = Inr tbl"
    and model: "variability_model v = ''sinusoidal''"
    and tm: "normalise_time (time v) = Inr tq"
    and rect: "\<And>t. t \<in> set (q_value tq) \<Longrightarrow>
        length (image_observer_times lens t) = length (point_source_magnitude lens band True)"
    and psf: "length psf_kernels = length (point_source_magnitude lens band True)"
  shows "point_source_image S P var lens band zp dp np psf_kernels (Some v)
     = Inr (EpochStamps
         (map (\<lambda>i. map (\<lambda>j.
                 stamp P (PixelGrid P np np [[dp, 0], [0, dp]]
                            (radec_at_xy_0 tbl ! 0) (radec_at_xy_0 tbl ! 1))
                   (PSF P (psf_kernels ! i))
                   (fst (image_positions lens) ! i) (snd (image_positions lens) ! i)
                   (counts (point_source_magnitude lens band True ! i
                            + var (kwargs_variability v)
                                (image_observer_times lens (q_value tq ! j) ! i)) zp))
               [0..<length (q_value tq)])
            [0..<length (point_source_magnitude lens band True)]))"
proof -
  define mags where "mags = point_source_magnitude lens band True"
  define ts where "ts = q_value tq"
  define n where "n = length mags"
  define m where "m = length ts"
  define f where "f = var (kwargs_variability v)"
  define grid where "grid = PixelGrid P np np [[dp, 0], [0, dp]]
                            (radec_at_xy_0 tbl ! 0) (radec_at_xy_0 tbl ! 1)"
  define rows where "rows = map (image_observer_times lens) ts"
  define h1 where "h1 = (\<lambda>(i, j). mags ! i + f (image_observer_times lens (ts ! j) ! i))"
  define h2 where "h2 = (\<lambda>(i, j). counts (h1 (i, j)) zp)"
  define psfs where "psfs = map (\<lambda>i. PSF P (psf_kernels ! i)) [0..<length psf_kernels]"
  note tb = props_Inr[OF props]
  have n2: "n = 2" using tb(7) by (simp add: n_def mags_def)
  have radec: "idx (radec_at_xy_0 tbl) 0 = Inr (radec_at_xy_0 tbl ! 0)"
    "idx (radec_at_xy_0 tbl) 1 = Inr (radec_at_xy_0 tbl ! 1)"
    using tb(8) by (simp_all add: idx_def)
  have rl: "\<And>r. r \<in> set rows \<Longrightarrow> length r = n"
    using rect by (auto simp: rows_def ts_def n_def mags_def)
  obtain T where T: "np_array_T rows = Inr T"
    and Tm: "rows \<noteq> [] \<longrightarrow> T = map (\<lambda>i. map (\<lambda>row. row ! i) rows) [0..<n]"
    using np_array_T_total[OF rl] by blast
  have Tij: "idx T i = Inr (T ! i) \<and> idx (T ! i) j = Inr (image_observer_times lens (ts ! j) ! i)"
    if "i < n" "j < m" for i j
  proof -
    from that have "rows \<noteq> []" by (auto simp: rows_def m_def)
    with Tm have Teq: "T = map (\<lambda>i. map (\<lambda>row. row ! i) rows) [0..<n]" by simp
    show ?thesis using that by (simp add: Teq idx_def rows_def m_def)
  qed
  have loop1: "mapM (\<lambda>(i, j). ebind (idx T i) (\<lambda>row. ebind (idx row j) (\<lambda>t.
                  Inr (mags ! i + f t)))) (List.product [0..<n] [0..<m])
               = Inr (map h1 (List.product [0..<n] [0..<m]))"
    by (rule mapM_Inr) (auto simp: h1_def Tij ebind_Inr)
  define VM where "VM = map (\<lambda>i. map (\<lambda>j. h1 (i, j)) [0..<m]) [0..<n]"
  have rs1: "reshape n m (map h1 (List.product [0..<n] [0..<m])) = Inr VM"
    unfolding VM_def by (rule reshape_product)
  have loop2: "mapM (\<lambda>(i, j). ebind (idx VM i) (\<lambda>row. ebind (idx row j) (\<lambda>vm.
                  Inr (counts vm zp)))) (List.product [0..<n] [0..<m])
               = Inr (map h2 (List.product [0..<n] [0..<m]))"
    by (rule mapM_Inr) (auto simp: h2_def VM_def idx_def ebind_Inr)
  define VA where "VA = map (\<lambda>i. map (\<lambda>j. h2 (i, j)) [0..<m]) [0..<n]"
  have rs2: "reshape n m (map h2 (List.product [0..<n] [0..<m])) = Inr VA"
    unfolding VA_def by (rule reshape_product)
  have lp: "length psfs = n" by (simp add: psfs_def psf n_def mags_def)
  have inner: "mapM (\<lambda>j. ebind (idx (ra_image tbl) i) (\<lambda>ra.
                       ebind (idx (dec_image tbl) i) (\<lambda>dec.
                       ebind (idx VA i) (\<lambda>row.
                       ebind (idx row j) (\<lambda>a.
                       Inr (stamp P grid (psfs ! i) ra dec a)))))) [0..<m]
               = Inr (map (\<lambda>j. stamp P grid (PSF P (psf_kernels ! i))
                        (fst (image_positions lens) ! i) (snd (image_positions lens) ! i)
                        (h2 (i, j))) [0..<m])" if "i < n" for i
    by (rule mapM_Inr)
      (use that n2 tb psf in \<open>auto simp: idx_def ebind_Inr VA_def psfs_def n_def mags_def\<close>)
  have loop3: "mapM (\<lambda>i. mapM (\<lambda>j. ebind (idx (ra_image tbl) i) (\<lambda>ra.
                       ebind (idx (dec_image tbl) i) (\<lambda>dec.
                       ebind (idx VA i) (\<lambda>row.
                       ebind (idx row j) (\<lambda>a.
                       Inr (stamp P grid (psfs ! i) ra dec a)))))) [0..<m]) [0..<length psfs]
               = Inr (map (\<lambda>i. map (\<lambda>j. stamp P grid (PSF P (psf_kernels ! i))
                        (fst (image_positions lens) ! i) (snd (image_positions lens) ! i)
                        (h2 (i, j))) [0..<m]) [0..<n])"
    unfolding lp by (rule mapM_Inr) (simp add: inner)
  show ?thesis
    unfolding point_source_image_def props ebind_Inr radec Let_def option.case tm model
    using T loop1 rs1 loop2 rs2 loop3
    unfolding mags_def[symmetric] ts_def[symmetric] n_def[symmetric] m_def[symmetric]
      rows_def[symmetric] psfs_def[symmetric] grid_def[symmetric] f_def[symmetric]
    by (simp add: ebind_Inr h2_def h1_def)
qed

text \<open>The path without variability, under the same conditions.\<close>

lemma point_source_image_None:
  assumes props: "point_source_image_properties S lens band zp dp np = Inr tbl"
    and psf: "length psf_kernels = length (point_source_magnitude lens band True)"
  shows "point_source_image S P var lens band zp dp np psf_kernels None
     = Inr (Stamps
         (map (\<lambda>i. stamp P (PixelGrid P np np [[dp, 0], [0, dp]]
                            (radec_at_xy_0 tbl ! 0) (radec_at_xy_0 tbl ! 1))
                   (PSF P (psf_kernels ! i))
                   (fst (image_positions lens) ! i) (snd (image_positions lens) ! i)
                   (counts (point_source_magnitude lens band True ! i) zp))
            [0..<length (point_source_magnitude lens band True)]))"
proof -
  define mags where "mags = point_source_magnitude lens band True"
  define grid where "grid = PixelGrid P np np [[dp, 0], [0, dp]]
                            (radec_at_xy_0 tbl ! 0) (radec_at_xy_0 tbl ! 1)"
  define psfs where "psfs = map (\<lambda>i. PSF P (psf_kernels ! i)) [0..<length psf_kernels]"
  note tb = props_Inr[OF props]
  have radec: "idx (radec_at_xy_0 tbl) 0 = Inr (radec_at_xy_0 tbl ! 0)"
    "idx (radec_at_xy_0 tbl) 1 = Inr (radec_at_xy_0 tbl ! 1)"
    using tb(8) by (simp_all add: idx_def)
  have lp: "length psfs = length mags" by (simp add: psfs_def psf mags_def)
  have loop: "mapM (\<lambda>i. ebind (idx (ra_image tbl) i) (\<lambda>ra.
                     ebind (idx (dec_image tbl) i) (\<lambda>dec.
                     ebind (idx (image_amplitude tbl) i) (\<lambda>a.
                     Inr (stamp P grid (psfs ! i) ra dec a))))) [0..<length psfs]
              = Inr (map (\<lambda>i. stamp P grid (PSF P (psf_kernels ! i))
                        (fst (image_positions lens) ! i) (snd (image_positions lens) ! i)
                        (counts (mags ! i) zp)) [0..<length mags])"
    unfolding lp
    by (rule mapM_Inr)
      (use tb psf in \<open>auto simp: idx_def ebind_Inr psfs_def mags_def length_amplitude_loop
         nth_amplitude_loop\<close>)
  show ?thesis
    unfolding point_source_image_def props ebind_Inr radec Let_def option.case
    using loop
    unfolding mags_def[symmetric] psfs_def[symmetric] grid_def[symmetric]
    by (simp add: ebind_Inr)
qed

lemma two_epochs_time:
  "normalise_time (time (two_epochs name)) = Inr \<lparr>q_value = [0, 1], q_unit = day\<rparr>"
  by (simp add: two_epochs_def normalise_time_def ebind_def)

lemma double_no_delay_props:
  "point_source_image_properties example_sim double_lens_no_delay band zp dp np
     = Inr \<lparr>deflector_pix = [0, 0], image_pix = [(1, 2), (- 1, - 2)], ra_image = [1, - 1],
            dec_image = [2, - 2], image_amplitude = [counts 25 zp, counts 30 zp],
            image_magnitude = [25, 30], radec_at_xy_0 = [0, 0]\<rparr>"
  by (simp add: point_source_image_properties_def point_source_columns_def example_sim_def
      double_lens_no_delay_def double_lens_def Table_def amplitude_loop_def Let_def upt_rec)

subsection \<open>The point source renderer\<close>






text \<open>
  C7. When every image's observer time is the source time and the variability
  function is zero everywhere, the variability path and the path without variability
  both return, the amplitude at every image and epoch is the \<open>image_amplitude\<close>
  entry of the image, and the stamp at \<open>(i, j)\<close> is the stamp of image \<open>i\<close> of the
  path without variability.
\<close>

theorem variability_without_delay_or_offset:
  assumes "point_source_image_properties S lens band zp dp np = Inr tbl"
    and "variability_model v = ''sinusoidal''"
    and "normalise_time (time v) = Inr tq"
    and "\<forall>t \<in> set (q_value tq).
           image_observer_times lens t
             = replicate (length (point_source_magnitude lens band True)) t"
    and "\<forall>t. var (kwargs_variability v) t = 0"
    and "length psf_kernels = length (point_source_magnitude lens band True)"
  shows "\<exists>epoch_stamps stamps.
      point_source_image S P var lens band zp dp np psf_kernels (Some v)
        = Inr (EpochStamps epoch_stamps)
      \<and> point_source_image S P var lens band zp dp np psf_kernels None = Inr (Stamps stamps)
      \<and> length epoch_stamps = length (point_source_magnitude lens band True)
      \<and> length stamps = length (point_source_magnitude lens band True)
      \<and> (\<forall>i < length (point_source_magnitude lens band True).
           length (epoch_stamps ! i) = length (q_value tq)
           \<and> (\<forall>j < length (q_value tq).
                counts (point_source_magnitude lens band True ! i
                        + var (kwargs_variability v)
                            (image_observer_times lens (q_value tq ! j) ! i)) zp
                  = image_amplitude tbl ! i
                \<and> epoch_stamps ! i ! j = stamps ! i))"
proof -
  note tb = props_Inr[OF assms(1)]
  define mags where "mags = point_source_magnitude lens band True"
  define grid where "grid = PixelGrid P np np [[dp, 0], [0, dp]]
                              (radec_at_xy_0 tbl ! 0) (radec_at_xy_0 tbl ! 1)"
  define one where "one = (\<lambda>i a. stamp P grid (PSF P (psf_kernels ! i))
                               (fst (image_positions lens) ! i) (snd (image_positions lens) ! i) a)"
  define es where "es = map (\<lambda>i. map (\<lambda>j.
       one i (counts (mags ! i + var (kwargs_variability v)
                        (image_observer_times lens (q_value tq ! j) ! i)) zp))
       [0..<length (q_value tq)]) [0..<length mags]"
  define ss where "ss = map (\<lambda>i. one i (counts (mags ! i) zp)) [0..<length mags]"
  have rect: "\<And>t. t \<in> set (q_value tq) \<Longrightarrow>
        length (image_observer_times lens t) = length (point_source_magnitude lens band True)"
    using assms(4) by simp
  have some: "point_source_image S P var lens band zp dp np psf_kernels (Some v)
                = Inr (EpochStamps es)"
    unfolding es_def one_def grid_def mags_def
    by (rule point_source_image_Some[OF assms(1) assms(2) assms(3) rect assms(6)])
  have none: "point_source_image S P var lens band zp dp np psf_kernels None = Inr (Stamps ss)"
    unfolding ss_def one_def grid_def mags_def
    by (rule point_source_image_None[OF assms(1) assms(6)])
  have len: "length es = length mags" "length ss = length mags"
    by (simp_all add: es_def ss_def)
  have each: "length (es ! i) = length (q_value tq)
           \<and> (\<forall>j < length (q_value tq).
                counts (mags ! i + var (kwargs_variability v)
                            (image_observer_times lens (q_value tq ! j) ! i)) zp
                  = image_amplitude tbl ! i
                \<and> es ! i ! j = ss ! i)" if "i < length mags" for i
    using that by (simp add: es_def ss_def assms(5) tb(4) nth_amplitude_loop mags_def)
  from some none len each show ?thesis
    unfolding mags_def by blast
qed

text \<open>The theorem on the lens with two images and no delay, at two epochs.\<close>

theorem variability_without_delay_or_offset_witness:
  "point_source_image_properties example_sim double_lens_no_delay ''i'' 25 (1 / 5) 10
     = Inr \<lparr>deflector_pix = [0, 0], image_pix = [(1, 2), (- 1, - 2)], ra_image = [1, - 1],
            dec_image = [2, - 2], image_amplitude = [counts 25 25, counts 30 25],
            image_magnitude = [25, 30], radec_at_xy_0 = [0, 0]\<rparr>
   \<and> variability_model (two_epochs ''sinusoidal'') = ''sinusoidal''
   \<and> normalise_time (time (two_epochs ''sinusoidal''))
        = Inr \<lparr>q_value = [0, 1], q_unit = day\<rparr>
   \<and> image_observer_times double_lens_no_delay 0 = replicate 2 0
   \<and> image_observer_times double_lens_no_delay 1 = replicate 2 1
   \<and> length [[[1]], [[1 :: real]]]
        = length (point_source_magnitude double_lens_no_delay ''i'' True)
   \<and> (\<exists>epoch_stamps stamps.
        point_source_image example_sim example_ps (\<lambda>kw t. 0) double_lens_no_delay ''i'' 25
            (1 / 5) 10 [[[1]], [[1]]] (Some (two_epochs ''sinusoidal''))
          = Inr (EpochStamps epoch_stamps)
        \<and> point_source_image example_sim example_ps (\<lambda>kw t. 0) double_lens_no_delay ''i'' 25
            (1 / 5) 10 [[[1]], [[1]]] None
          = Inr (Stamps stamps)
        \<and> epoch_stamps ! 1 ! 0 = stamps ! 1
        \<and> epoch_stamps ! 1 ! 1 = stamps ! 1
        \<and> epoch_stamps ! 0 ! 1 = stamps ! 0)"
proof -
  let ?t = "\<lparr>deflector_pix = [0, 0], image_pix = [(1, 2), (- 1, - 2)], ra_image = [1, - 1],
            dec_image = [2, - 2], image_amplitude = [counts 25 25, counts 30 25],
            image_magnitude = [25, 30], radec_at_xy_0 = [0, 0 :: real]\<rparr>"
  let ?tq = "\<lparr>q_value = [0, 1 :: real], q_unit = day\<rparr>"
  note p = double_no_delay_props[of "''i''" 25 "1 / 5" 10]
  have m: "variability_model (two_epochs ''sinusoidal'') = ''sinusoidal''"
    by (simp add: two_epochs_def)
  note t = two_epochs_time[of "''sinusoidal''"]
  have d0: "image_observer_times double_lens_no_delay 0 = replicate 2 0"
    and d1: "image_observer_times double_lens_no_delay 1 = replicate 2 1"
    by (simp_all add: double_lens_no_delay_def numeral_2_eq_2)
  have n: "length (point_source_magnitude double_lens_no_delay ''i'' True) = 2"
    by (simp add: double_lens_no_delay_def double_lens_def)
  have r: "\<forall>t \<in> set (q_value ?tq).
           image_observer_times double_lens_no_delay t
             = replicate (length (point_source_magnitude double_lens_no_delay ''i'' True)) t"
    using d0 d1 n by simp
  have z: "\<forall>t. (\<lambda>kw t. 0 :: real) (kwargs_variability (two_epochs ''sinusoidal'')) t = 0"
    by simp
  have k: "length [[[1]], [[1 :: real]]]
        = length (point_source_magnitude double_lens_no_delay ''i'' True)"
    using n by simp
  from variability_without_delay_or_offset[OF p m t r z k, of example_ps]
  obtain es ss where
    some: "point_source_image example_sim example_ps (\<lambda>kw t. 0) double_lens_no_delay ''i'' 25
            (1 / 5) 10 [[[1]], [[1]]] (Some (two_epochs ''sinusoidal'')) = Inr (EpochStamps es)"
    and none: "point_source_image example_sim example_ps (\<lambda>kw t. 0) double_lens_no_delay ''i'' 25
            (1 / 5) 10 [[[1]], [[1]]] None = Inr (Stamps ss)"
    and each: "\<forall>i < length (point_source_magnitude double_lens_no_delay ''i'' True).
           length (es ! i) = length (q_value ?tq)
           \<and> (\<forall>j < length (q_value ?tq).
                counts (point_source_magnitude double_lens_no_delay ''i'' True ! i
                        + (\<lambda>kw t. 0) (kwargs_variability (two_epochs ''sinusoidal''))
                            (image_observer_times double_lens_no_delay (q_value ?tq ! j) ! i)) 25
                  = image_amplitude ?t ! i
                \<and> es ! i ! j = ss ! i)"
    by blast
  from each n have a: "es ! 1 ! 0 = ss ! 1" and b: "es ! 1 ! 1 = ss ! 1" and c: "es ! 0 ! 1 = ss ! 0"
    by simp_all
  from p m t d0 d1 k some none a b c show ?thesis by blast
qed

end
